theory Spec2Isabelle
  imports Main "HOL-Library.Word" "HOL-Library.Sublist"
begin

section \<open>C strings and the printf conversions used by symquery.c\<close>

type_synonym uint = "32 word"

text \<open>A buffer read as a C string ends at its first NUL byte.\<close>

definition c_str :: "string \<Rightarrow> string" where
  "c_str s = takeWhile (\<lambda>c. c \<noteq> CHR 0x00) s"

definition tolower :: "char \<Rightarrow> char" where
  "tolower c =
     (case map_of (zip ''ABCDEFGHIJKLMNOPQRSTUVWXYZ'' ''abcdefghijklmnopqrstuvwxyz'') c of
        Some d \<Rightarrow> d
      | None \<Rightarrow> c)"

text \<open>\<open>stricmp a b\<close> is the test \<open>_stricmp(a, b) == 0\<close> (\<open>strcasecmp\<close> off Windows).\<close>

definition stricmp :: "string \<Rightarrow> string \<Rightarrow> bool" where
  "stricmp a b = (map tolower a = map tolower b)"

text \<open>\<open>%x\<close>: lower-case hexadecimal without leading zeros.\<close>

function show_hex :: "nat \<Rightarrow> string" where
  "show_hex n =
     (if n < 16 then [''0123456789abcdef'' ! n]
      else show_hex (n div 16) @ [''0123456789abcdef'' ! (n mod 16)])"
  by pat_completeness auto
termination
  by (relation "measure id") auto

declare show_hex.simps [simp del]

text \<open>\<open>%u\<close> and \<open>%d\<close>: decimal.\<close>

function show_dec :: "nat \<Rightarrow> string" where
  "show_dec n =
     (if n < 10 then [''0123456789'' ! n]
      else show_dec (n div 10) @ [''0123456789'' ! (n mod 10)])"
  by pat_completeness auto
termination
  by (relation "measure id") auto

declare show_dec.simps [simp del]

definition show_int :: "int \<Rightarrow> string" where
  "show_int i = (if i < 0 then ''-'' @ show_dec (nat (- i)) else show_dec (nat i))"

section \<open>The symbol library as the front end sees it\<close>

text \<open>
  \<open>drsyms.h\<close>, \<open>dr_api.h\<close> and \<open>utils.h\<close> are not part of the sources. A status
  (\<open>drsym_error_t\<close>) is the enumerator's integer value, which is what \<open>%d\<close> prints; the two
  enumerators the front end names, the constant \<open>MAXIMUM_PATH\<close>, the platform switch and
  every library entry point are fields of the environment record below. The debug kind is
  the set of flags for which \<open>TEST(flag, kind)\<close> holds. \<open>size_t\<close> values are kept as the
  32 bits that \<open>sscanf("%x", (uint *)&modoffs)\<close> writes and the \<open>(uint)\<close> casts print.
\<close>

datatype drsym_flag =
  DRSYM_SYMBOLS | DRSYM_LINE_NUMS | DRSYM_ELF_SYMTAB | DRSYM_PDB | DRSYM_PECOFF_SYMTAB

type_synonym drsym_debug_kind_t = "drsym_flag set"

type_synonym drsym_error_t = int

record drsym_info_t =
  name :: string
  name_available_size :: nat
  "file" :: string
  line :: "64 word"
  line_offs :: uint
  start_offs :: uint
  end_offs :: uint
  debug_kind :: drsym_debug_kind_t

record drsym_line_info_t =
  cu_name :: "string option"
  line_file :: "string option"
  line_number :: "64 word"
  line_addr :: nat

record env =
  WINDOWS :: bool
  MAXIMUM_PATH :: nat
  DRSYM_SUCCESS :: drsym_error_t
  DRSYM_ERROR_LINE_NOT_AVAILABLE :: drsym_error_t
  GetFullPathName :: "string \<Rightarrow> nat \<Rightarrow> int \<times> string"
  access_read :: "string \<Rightarrow> bool"
  dr_file_exists :: "string \<Rightarrow> bool"
  drsym_init :: drsym_error_t
  drsym_exit :: drsym_error_t
  drsym_lookup_address :: "string \<Rightarrow> uint \<Rightarrow> drsym_error_t \<times> drsym_info_t"
  drsym_lookup_symbol :: "string \<Rightarrow> string \<Rightarrow> drsym_error_t \<times> uint"
  drsym_get_module_debug_kind :: "string \<Rightarrow> drsym_error_t \<times> drsym_debug_kind_t"
  drsym_enumerate_symbols_ex :: "string \<Rightarrow> (drsym_info_t \<times> drsym_error_t) list \<times> drsym_error_t"
  drsym_search_symbols_ex ::
    "string \<Rightarrow> string option \<Rightarrow> bool \<Rightarrow> (drsym_info_t \<times> drsym_error_t) list \<times> drsym_error_t"
  drsym_enumerate_lines :: "string \<Rightarrow> drsym_line_info_t list \<times> drsym_error_t"
  PIFX :: "nat \<Rightarrow> string"

text \<open>
  What a run does, in order: writes to the \<open>stdout\<close> buffer, flushes of it, reads of
  \<open>stdin\<close>, and calls into the library.
\<close>

datatype event =
    Printf string
  | Fflush
  | Fgets "string option"
  | Call_dr_standalone_init
  | Call_drsym_init
  | Call_drsym_exit
  | Call_drsym_lookup_address string uint
  | Call_drsym_lookup_symbol string string
  | Call_drsym_get_module_debug_kind string
  | Call_drsym_enumerate_symbols_ex string "string option"
  | Call_drsym_search_symbols_ex string "string option" bool
  | Call_drsym_enumerate_lines string

fun printed :: "event list \<Rightarrow> string list" where
  "printed [] = []"
| "printed (Printf s # es) = s # printed es"
| "printed (e # es) = printed es"

section \<open>Options\<close>

text \<open>
  The two file-scope flags \<open>show_func\<close> and \<open>verbose\<close> and the option variables local to
  \<open>main\<close>. \<open>dll = None\<close> is the \<open>NULL\<close> pointer.
\<close>

record options =
  show_func :: bool
  verbose :: bool
  dll :: "string option"
  addr2sym :: bool
  addr2sym_multi :: bool
  sym2addr :: bool
  enumerate_opt :: bool
  enumerate_all :: bool
  search :: bool
  searchall :: bool
  enum_lines :: bool

definition MAX_FUNC_LEN :: nat where
  "MAX_FUNC_LEN = 256"

section \<open>The handlers\<close>

definition print_debug_kind :: "drsym_debug_kind_t \<Rightarrow> event list" where
  "print_debug_kind kind =
     [Printf (''<debug info: type='' @
        (if DRSYM_ELF_SYMTAB \<in> kind then ''ELF symtab''
         else if DRSYM_PECOFF_SYMTAB \<in> kind then ''PECOFF symtab''
         else if DRSYM_PDB \<in> kind then ''PDB'' else ''no symbols'') @
        '', '' @ (if DRSYM_SYMBOLS \<in> kind then ''has'' else ''NO'') @ '' symbols, '' @
        (if DRSYM_LINE_NUMS \<in> kind then ''has'' else ''NO'') @ '' line numbers>\<newline>'')]"

definition get_and_print_debug_kind :: "env \<Rightarrow> string \<Rightarrow> event list" where
  "get_and_print_debug_kind E dllpath =
     (case drsym_get_module_debug_kind E dllpath of
        (symres, kind) \<Rightarrow>
          Call_drsym_get_module_debug_kind dllpath #
          (if symres = DRSYM_SUCCESS E then print_debug_kind kind else []))"

definition lookup_address :: "env \<Rightarrow> options \<Rightarrow> string \<Rightarrow> uint \<Rightarrow> event list" where
  "lookup_address E opts dllpath modoffs =
     (case drsym_lookup_address E dllpath modoffs of
        (symres, info) \<Rightarrow>
          Call_drsym_lookup_address dllpath modoffs #
          (if symres = DRSYM_SUCCESS E \<or> symres = DRSYM_ERROR_LINE_NOT_AVAILABLE E then
             (if verbose opts then print_debug_kind (debug_kind info) else []) @
             (if name_available_size info \<ge> MAX_FUNC_LEN
              then [Printf (''WARNING: function name longer than max: '' @ name info @ ''\<newline>'')]
              else []) @
             (if show_func opts
              then [Printf (name info @ ''+0x'' @ show_hex (unat (modoffs - start_offs info)) @
                            ''\<newline>'')]
              else []) @
             (if symres = DRSYM_ERROR_LINE_NOT_AVAILABLE E then [Printf ''??:0\<newline>'']
              else [Printf (file info @ '':'' @ show_dec (unat (line info)) @ ''+0x'' @
                            show_hex (unat (line_offs info)) @ ''\<newline>'')])
           else if verbose opts
             then [Printf (''drsym_lookup_address error '' @ show_int symres @ ''\<newline>'')]
           else if show_func opts then [Printf ''?\<newline>'']
           else []))"

definition lookup_symbol :: "env \<Rightarrow> options \<Rightarrow> string \<Rightarrow> string \<Rightarrow> event list" where
  "lookup_symbol E opts dllpath symname =
     (if verbose opts then get_and_print_debug_kind E dllpath else []) @
     (case drsym_lookup_symbol E dllpath symname of
        (symres, modoffs) \<Rightarrow>
          Call_drsym_lookup_symbol dllpath symname #
          (if symres = DRSYM_SUCCESS E \<or> symres = DRSYM_ERROR_LINE_NOT_AVAILABLE E
             then [Printf (''+0x'' @ show_hex (unat modoffs) @ ''\<newline>'')]
           else if verbose opts
             then [Printf (''drsym error '' @ show_int symres @ '' looking up '' @ [CHR 0x22] @
                           symname @ [CHR 0x22] @ '' in '' @ [CHR 0x22] @ dllpath @ [CHR 0x22] @
                           ''\<newline>'')]
           else [Printf ''??\<newline>'']))"


text \<open>
  Modelled from the spec: the enumeration entry points of the symbol library
  (\<open>drsym_enumerate_symbols_ex\<close>, \<open>drsym_search_symbols_ex\<close>, \<open>drsym_enumerate_lines\<close>) are
  not in the sources. "Enumeration is driven by a caller-supplied callback that returns
  continue to keep iterating": the library presents its items one at a time, in its own
  order, and stops after the first callback that does not return continue.
\<close>

fun drive_callback :: "('a \<Rightarrow> event list \<times> bool) \<Rightarrow> 'a list \<Rightarrow> event list" where
  "drive_callback cb [] = []"
| "drive_callback cb (x # xs) =
     (case cb x of (out, continue) \<Rightarrow> out @ (if continue then drive_callback cb xs else []))"

text \<open>\<open>data = None\<close> is the \<open>NULL\<close> filter; the result \<open>True\<close> is "keep iterating".\<close>

definition search_cb :: "string option \<Rightarrow> drsym_info_t \<times> drsym_error_t \<Rightarrow> event list \<times> bool" where
  "search_cb data = (\<lambda>(info, status).
     ((if (case data of None \<Rightarrow> True | Some match \<Rightarrow> name info = match)
       then [Printf (name info @ '' +0x'' @ show_hex (unat (start_offs info)) @ ''-0x'' @
                     show_hex (unat (end_offs info)) @ ''\<newline>'')]
       else []),
      True))"

definition enumerate_symbols ::
    "env \<Rightarrow> options \<Rightarrow> string \<Rightarrow> string option \<Rightarrow> bool \<Rightarrow> bool \<Rightarrow> event list" where
  "enumerate_symbols E opts dllpath match srch srchall =
     (if verbose opts then get_and_print_debug_kind E dllpath else []) @
     (case (if WINDOWS E \<and> srch
            then (case drsym_search_symbols_ex E dllpath match srchall of
                    (syms, symres) \<Rightarrow>
                      (Call_drsym_search_symbols_ex dllpath match srchall #
                       drive_callback (search_cb None) syms, symres))
            else (case drsym_enumerate_symbols_ex E dllpath of
                    (syms, symres) \<Rightarrow>
                      (Call_drsym_enumerate_symbols_ex dllpath match #
                       drive_callback (search_cb match) syms, symres)))
      of (evs, symres) \<Rightarrow>
        evs @
        (if symres \<noteq> DRSYM_SUCCESS E \<and> verbose opts
         then [Printf (''search/enum error '' @ show_int symres @ ''\<newline>'')]
         else []))"

definition enum_line_cb :: "env \<Rightarrow> drsym_line_info_t \<Rightarrow> event list \<times> bool" where
  "enum_line_cb E info =
     ([Printf (''cu='' @ [CHR 0x22] @
               (case cu_name info of None \<Rightarrow> ''<null>'' | Some s \<Rightarrow> s) @ [CHR 0x22] @
               '', file='' @ [CHR 0x22] @
               (case line_file info of None \<Rightarrow> ''<null>'' | Some s \<Rightarrow> s) @ [CHR 0x22] @
               '' line='' @ show_int (sint (line_number info)) @
               '', addr='' @ PIFX E (line_addr info) @ ''\<newline>'')],
      True)"

definition enumerate_lines :: "env \<Rightarrow> options \<Rightarrow> string \<Rightarrow> event list" where
  "enumerate_lines E opts dllpath =
     (if verbose opts then get_and_print_debug_kind E dllpath else []) @
     (case drsym_enumerate_lines E dllpath of
        (lines, symres) \<Rightarrow>
          Call_drsym_enumerate_lines dllpath # drive_callback (enum_line_cb E) lines @
          (if symres \<noteq> DRSYM_SUCCESS E \<and> verbose opts
           then [Printf (''line enum error '' @ show_int symres @ ''\<newline>'')]
           else []))"

section \<open>Usage text\<close>

definition USAGE_PRE :: "string \<Rightarrow> string" where
  "USAGE_PRE mypath =
     ''Usage:\<newline>Look up addresses for one module:\<newline>  '' @ mypath @
     '' -e <module> [-f] [-v] -a [<address relative to module base> ...]\<newline>'' @
     ''Look up addresses for multiple modules:\<newline>  '' @ mypath @
     '' [-f] [-v] -q <pairs of [module_path;address relative to module base] on stdin>\<newline>'' @
     ''Look up exact symbols for one module:\<newline>  '' @ mypath @
     '' -e <module> [-v] [--enum] -s [<symbol1> <symbol2> ...]\<newline>''"

definition USAGE_MID :: "env \<Rightarrow> string \<Rightarrow> string" where
  "USAGE_MID E mypath =
     (if WINDOWS E then
        ''Look up symbols matching wildcard patterns (glob-style: *,?) for one module:\<newline>  '' @
        mypath @ '' -e <module> [-v] --search -s [<symbol1> <symbol2> ...]\<newline>'' @
        ''Look up private symbols matching wildcard patterns (glob-style: *,?) for one module:\<newline>  '' @
        mypath @ '' -e <module> [-v] --searchall -s [<symbol1> <symbol2> ...]\<newline>''
      else [])"

definition USAGE_POST :: "string \<Rightarrow> string" where
  "USAGE_POST mypath =
     ''List all symbols in a module:\<newline>  '' @ mypath @ '' -e <module> [-v] --list\<newline>'' @
     ''List all source lines in a module:\<newline>  '' @ mypath @ '' -e <module> [-v] --lines\<newline>'' @
     ''Optional parameters:\<newline>  -f = show function name\<newline>  -v = verbose\<newline>'' @
     ''  --enum = look up via external enum rather than drsyms-internal enum\<newline>''"

definition PRINT_USAGE :: "env \<Rightarrow> string \<Rightarrow> event list" where
  "PRINT_USAGE E mypath =
     [Printf (USAGE_PRE mypath), Printf (USAGE_MID E mypath), Printf (USAGE_POST mypath)]"

section \<open>Scanning: the two sscanf calls and fgets\<close>

definition isspace :: "char \<Rightarrow> bool" where
  "isspace c = (c \<in> set [CHR '' '', CHR 0x09, CHR 0x0A, CHR 0x0B, CHR 0x0C, CHR 0x0D])"

definition xdigit_val :: "char \<Rightarrow> nat option" where
  "xdigit_val c =
     map_of (zip ''0123456789abcdefABCDEF''
                 [0, 1, 2, 3, 4, 5, 6, 7, 8, 9, 10, 11, 12, 13, 14, 15, 10, 11, 12, 13, 14, 15]) c"

definition hex_value :: "string \<Rightarrow> nat" where
  "hex_value ds = foldl (\<lambda>acc c. acc * 16 + (case xdigit_val c of Some d \<Rightarrow> d | None \<Rightarrow> 0)) 0 ds"

text \<open>
  The conversion \<open>%x\<close> into an \<open>unsigned int\<close>: white space is skipped, then an optional
  sign, an optional \<open>0x\<close> and the longest run of hexadecimal digits are read. \<open>None\<close> is a
  matching failure. A bare \<open>0x\<close> converts as the \<open>0\<close> it starts with, and a value that does
  not fit 32 bits is reduced modulo \<open>2^32\<close>.
\<close>

definition scan_x :: "string \<Rightarrow> uint option" where
  "scan_x s =
     (let s1 = dropWhile isspace s;
          neg = (s1 \<noteq> [] \<and> hd s1 = CHR ''-'');
          s2 = (if s1 \<noteq> [] \<and> (hd s1 = CHR ''-'' \<or> hd s1 = CHR ''+'') then tl s1 else s1);
          pfx = (case s2 of z # x # r \<Rightarrow> z = CHR ''0'' \<and> (x = CHR ''x'' \<or> x = CHR ''X'') | _ \<Rightarrow> False);
          s3 = (if pfx then drop 2 s2 else s2);
          ds = takeWhile (\<lambda>c. xdigit_val c \<noteq> None) s3
      in if ds = [] \<and> \<not> pfx then None
         else Some (if neg then - of_nat (hex_value ds) else of_nat (hex_value ds)))"

text \<open>
  \<open>sscanf(line, "%" MAX_PATH_STR "[^;];%x", modpath, &modoffs) == 2\<close>: at least one and at
  most \<open>MAXIMUM_PATH\<close> characters other than \<open>;\<close>, then \<open>;\<close>, then \<open>%x\<close>. The result is
  \<open>Some (modpath, modoffs)\<close> exactly when the call returns 2.
\<close>

definition sscanf_modpath_modoffs :: "nat \<Rightarrow> string \<Rightarrow> (string \<times> uint) option" where
  "sscanf_modpath_modoffs width buf =
     (let s = c_str buf;
          modpath = takeWhile (\<lambda>c. c \<noteq> CHR '';'') (take width s);
          r = drop (length modpath) s
      in if modpath = [] then None
         else (case r of
                 [] \<Rightarrow> None
               | c # r' \<Rightarrow>
                   if c \<noteq> CHR '';'' then None
                   else (case scan_x r' of
                           None \<Rightarrow> None
                         | Some modoffs \<Rightarrow> Some (modpath, modoffs))))"

text \<open>
  \<open>fgets(line, n, stdin)\<close> on the unread input: the line read (\<open>None\<close> is \<open>NULL\<close>), the
  input left, and whether the end-of-file indicator is now set. At most \<open>n - 1\<close> bytes are
  taken, up to and including the first newline.
\<close>

definition fgets :: "nat \<Rightarrow> string \<Rightarrow> string option \<times> string \<times> bool" where
  "fgets n inp =
     (let chunk = take (n - 1) inp;
          pre = takeWhile (\<lambda>c. c \<noteq> CHR ''\<newline>'') chunk
      in if length pre < length chunk
           then (Some (pre @ ''\<newline>''), drop (Suc (length pre)) inp, False)
         else if length chunk = n - 1 then (Some chunk, drop (n - 1) inp, False)
         else if chunk = [] then (None, [], True)
         else (Some chunk, [], True))"


section \<open>main: the argument loop\<close>

definition init_options :: options where
  "init_options =
     \<lparr>show_func = False, verbose = False, dll = None, addr2sym = False,
      addr2sym_multi = False, sym2addr = False, enumerate_opt = False, enumerate_all = False,
      search = False, searchall = False, enum_lines = False\<rparr>"

text \<open>
  The value \<open>-e\<close> leaves in \<open>dll\<close>, or \<open>None\<close> when the path check fails: on Windows the
  result of \<open>GetFullPathName\<close> must fit \<open>dll_local\<close> and be readable (\<open>_access(dll, 4)\<close>),
  elsewhere \<open>dr_file_exists\<close> must hold of the argument itself.
\<close>

definition check_dll :: "env \<Rightarrow> string \<Rightarrow> string option" where
  "check_dll E arg =
     (if WINDOWS E then
        (case GetFullPathName E arg (MAXIMUM_PATH E) of
           (res, dll_local) \<Rightarrow>
             if res \<le> 0 \<or> res \<ge> int (MAXIMUM_PATH E) - 1 \<or> \<not> access_read E dll_local
             then None else Some dll_local)
      else if \<not> dr_file_exists E arg then None else Some arg)"

text \<open>
  The \<open>for\<close> loop over \<open>argv[1..]\<close>. \<open>Inl (events, status)\<close> is a \<open>return\<close> from inside the
  loop; \<open>Inr (opts, rest)\<close> is the loop left, with \<open>rest\<close> the arguments from index \<open>i\<close> on
  (empty unless the loop was left by the \<open>break\<close> under \<open>-a\<close>/\<open>-s\<close>).
\<close>

fun parse_args ::
    "env \<Rightarrow> string \<Rightarrow> options \<Rightarrow> string list \<Rightarrow> (event list \<times> int) + (options \<times> string list)" where
  "parse_args E argv0 opts [] = Inr (opts, [])"
| "parse_args E argv0 opts (a # args) =
     (if stricmp a ''-e'' then
        (case args of
           [] \<Rightarrow> Inl (PRINT_USAGE E argv0, 1)
         | p # args' \<Rightarrow>
             (case check_dll E p of
                None \<Rightarrow> Inl ([Printf (''ERROR: invalid path '' @ p @ ''\<newline>'')], 1)
              | Some d \<Rightarrow> parse_args E argv0 (opts\<lparr>dll := Some d\<rparr>) args'))
      else if stricmp a ''-f'' then parse_args E argv0 (opts\<lparr>show_func := True\<rparr>) args
      else if stricmp a ''-v'' then parse_args E argv0 (opts\<lparr>verbose := True\<rparr>) args
      else if stricmp a ''-a'' \<or> stricmp a ''-s'' then
        (if args = [] then Inl (PRINT_USAGE E argv0, 1)
         else Inr (if stricmp a ''-a'' then opts\<lparr>addr2sym := True\<rparr>
                   else opts\<lparr>sym2addr := True\<rparr>, args))
      else if stricmp a ''--lines'' then parse_args E argv0 (opts\<lparr>enum_lines := True\<rparr>) args
      else if stricmp a ''-q'' then parse_args E argv0 (opts\<lparr>addr2sym_multi := True\<rparr>) args
      else if stricmp a ''--enum'' then parse_args E argv0 (opts\<lparr>enumerate_opt := True\<rparr>) args
      else if stricmp a ''--list'' then parse_args E argv0 (opts\<lparr>enumerate_all := True\<rparr>) args
      else if stricmp a ''--search'' then parse_args E argv0 (opts\<lparr>search := True\<rparr>) args
      else if stricmp a ''--searchall''
        then parse_args E argv0 (opts\<lparr>search := True, searchall := True\<rparr>) args
      else Inl (PRINT_USAGE E argv0, 1))"

section \<open>main: single-module queries and batch mode\<close>

text \<open>One iteration of the loop over the arguments left after \<open>-a\<close>/\<open>-s\<close>.\<close>

definition query :: "env \<Rightarrow> options \<Rightarrow> string \<Rightarrow> string \<Rightarrow> event list" where
  "query E opts dllpath arg =
     (if addr2sym opts then
        (case scan_x arg of
           Some modoffs \<Rightarrow> lookup_address E opts dllpath modoffs
         | None \<Rightarrow> [Printf (''ERROR: unknown input '' @ arg @ ''\<newline>'')])
      else if enumerate_opt opts \<or> search opts
        then enumerate_symbols E opts dllpath (Some arg) (search opts) (searchall opts)
      else lookup_symbol E opts dllpath arg)"

definition exit_line :: string where
  "exit_line = '';exit\<newline>''"

text \<open>The body of the batch loop after a line was read and was not the sentinel.\<close>

definition batch_line :: "env \<Rightarrow> options \<Rightarrow> string \<Rightarrow> event list" where
  "batch_line E opts ln =
     (case sscanf_modpath_modoffs (MAXIMUM_PATH E) ln of
        Some (modpath, modoffs) \<Rightarrow> lookup_address E opts modpath modoffs @ [Fflush]
      | None \<Rightarrow>
          if verbose opts then [Printf (''Error: unknown input '' @ c_str ln @ ''\<newline>'')]
          else [])"

text \<open>
  \<open>while (!feof(stdin))\<close> with the buffer \<open>char line[MAXIMUM_PATH*2]\<close>. Standard input is the
  finite sequence of bytes \<open>inp\<close> followed by end of file; \<open>eof\<close> is the end-of-file
  indicator. The array needs \<open>MAXIMUM_PATH > 0\<close>.
\<close>

function batch_mode :: "env \<Rightarrow> options \<Rightarrow> string \<Rightarrow> bool \<Rightarrow> event list" where
  "batch_mode E opts inp eof =
     (if eof \<or> MAXIMUM_PATH E = 0 then []
      else (case fgets (MAXIMUM_PATH E * 2) inp of
              (None, inp', eof') \<Rightarrow> [Fgets None]
            | (Some ln, inp', eof') \<Rightarrow>
                Fgets (Some ln) #
                (if c_str ln = exit_line then []
                 else batch_line E opts ln @ batch_mode E opts inp' eof')))"
  by pat_completeness auto
termination
proof (relation "measure (\<lambda>(E, opts, inp, eof). length inp)", goal_cases)
  case 1
  show ?case by simp
next
  case (2 E opts inp eof x y ln inp' eof')
  then have "fgets (MAXIMUM_PATH E * 2) inp = (Some ln, inp', eof')" and "MAXIMUM_PATH E \<noteq> 0"
    by simp_all
  then have "length inp' < length inp"
    by (auto simp: fgets_def Let_def split: if_splits)
  then show ?case by simp
qed

declare batch_mode.simps [simp del]



definition main :: "env \<Rightarrow> string \<Rightarrow> string list \<Rightarrow> string \<Rightarrow> event list \<times> int" where
  "main E argv0 args inp =
     (case parse_args E argv0 init_options args of
        Inl r \<Rightarrow> r
      | Inr (opts, rest) \<Rightarrow>
          if (\<not> addr2sym_multi opts \<and> dll opts = None) \<or>
             (addr2sym_multi opts \<and> dll opts \<noteq> None) \<or>
             (\<not> sym2addr opts \<and> \<not> addr2sym opts \<and> \<not> addr2sym_multi opts \<and>
              \<not> enumerate_all opts \<and> \<not> enum_lines opts)
          then (PRINT_USAGE E argv0, 1)
          else if drsym_init E \<noteq> DRSYM_SUCCESS E
          then ([Call_dr_standalone_init, Call_drsym_init,
                 Printf ''ERROR: unable to initialize symbol library\<newline>''], 1)
          else
            ([Call_dr_standalone_init, Call_drsym_init] @
             (if \<not> addr2sym_multi opts then
                (case dll opts of
                   None \<Rightarrow> []
                 | Some d \<Rightarrow>
                     if enum_lines opts then enumerate_lines E opts d
                     else if enumerate_all opts
                       then enumerate_symbols E opts d None (search opts) (searchall opts)
                     else concat (map (query E opts d) rest))
              else batch_mode E opts inp False) @
             [Call_drsym_exit] @
             (if drsym_exit E \<noteq> DRSYM_SUCCESS E
              then [Printf ''WARNING: error cleaning up symbol library\<newline>'']
              else []),
             0))"


section \<open>Notions used in the statements\<close>


text \<open>
  The options that only set a variable and let the argument loop go on, with the update
  each one makes.
\<close>

definition flag_update :: "string \<Rightarrow> (options \<Rightarrow> options) option" where
  "flag_update a =
     (if stricmp a ''-f'' then Some (\<lambda>opts. opts\<lparr>show_func := True\<rparr>)
      else if stricmp a ''-v'' then Some (\<lambda>opts. opts\<lparr>verbose := True\<rparr>)
      else if stricmp a ''--lines'' then Some (\<lambda>opts. opts\<lparr>enum_lines := True\<rparr>)
      else if stricmp a ''-q'' then Some (\<lambda>opts. opts\<lparr>addr2sym_multi := True\<rparr>)
      else if stricmp a ''--enum'' then Some (\<lambda>opts. opts\<lparr>enumerate_opt := True\<rparr>)
      else if stricmp a ''--list'' then Some (\<lambda>opts. opts\<lparr>enumerate_all := True\<rparr>)
      else if stricmp a ''--search'' then Some (\<lambda>opts. opts\<lparr>search := True\<rparr>)
      else if stricmp a ''--searchall''
        then Some (\<lambda>opts. opts\<lparr>search := True, searchall := True\<rparr>)
      else None)"


text \<open>Trace observers for the batch protocol.\<close>

fun is_Fgets :: "event \<Rightarrow> bool" where
  "is_Fgets (Fgets r) = True"
| "is_Fgets e = False"

fun lookup_calls :: "event list \<Rightarrow> (string \<times> uint) list" where
  "lookup_calls [] = []"
| "lookup_calls (Call_drsym_lookup_address m a # es) = (m, a) # lookup_calls es"
| "lookup_calls (e # es) = lookup_calls es"

text \<open>
  \<open>track pending es\<close> follows a trace with one bit of state, "a lookup was started and
  standard output has not been flushed since". It fails (\<open>None\<close>) when a line is read or
  another lookup is started in that state.
\<close>

fun track :: "bool \<Rightarrow> event list \<Rightarrow> bool option" where
  "track pending [] = Some pending"
| "track pending (Call_drsym_lookup_address m a # es) =
     (if pending then None else track True es)"
| "track pending (Fgets r # es) = (if pending then None else track False es)"
| "track pending (Fflush # es) = track False es"
| "track pending (e # es) = track pending es"



section \<open>A sample library for concrete runs\<close>

definition sample_info :: drsym_info_t where
  "sample_info =
     \<lparr>name = ''main'', name_available_size = 4, file = ''a.c'', line = 12, line_offs = 3,
      start_offs = 0x10, end_offs = 0x40,
      debug_kind = {DRSYM_SYMBOLS, DRSYM_LINE_NUMS, DRSYM_PDB}\<rparr>"

definition sample_env :: env where
  "sample_env =
     \<lparr>WINDOWS = True, MAXIMUM_PATH = 260, DRSYM_SUCCESS = 0,
      DRSYM_ERROR_LINE_NOT_AVAILABLE = 6,
      GetFullPathName = (\<lambda>p n. (int (length p), p)),
      access_read = (\<lambda>p. p = ''a.dll''),
      dr_file_exists = (\<lambda>p. p = ''a.dll''),
      drsym_init = 0, drsym_exit = 1,
      drsym_lookup_address = (\<lambda>p a. if p = ''a.dll'' \<and> a = 0x15 then (0, sample_info)
                                    else if p = ''a.dll'' \<and> a = 0x20 then (6, sample_info)
                                    else (5, sample_info)),
      drsym_lookup_symbol = (\<lambda>p s. if s = ''main'' then (0, 0x10) else (5, 0)),
      drsym_get_module_debug_kind = (\<lambda>p. (0, {DRSYM_SYMBOLS, DRSYM_LINE_NUMS, DRSYM_PDB})),
      drsym_enumerate_symbols_ex = (\<lambda>p. ([(sample_info, 0)], 0)),
      drsym_search_symbols_ex = (\<lambda>p m a. if m = Some ''zz*'' then ([], 0)
                                         else ([(sample_info, 0)], 0)),
      drsym_enumerate_lines = (\<lambda>p. ([], 0)),
      PIFX = (\<lambda>n. ''0x'' @ show_hex n)\<rparr>"

section \<open>Properties\<close>

subsection \<open>Auxiliary facts\<close>

lemma printed_append: "printed (xs @ ys) = printed xs @ printed ys"
  by (induction xs rule: printed.induct) simp_all

lemma sample_env_codes:
  "DRSYM_SUCCESS sample_env = 0" "DRSYM_ERROR_LINE_NOT_AVAILABLE sample_env = 6"
  "MAXIMUM_PATH sample_env = 260" "WINDOWS sample_env" "drsym_init sample_env = 0"
  "drsym_exit sample_env = 1"
  by (simp_all add: sample_env_def)

subsection \<open>Address lookup\<close>



subsection \<open>Symbol lookup\<close>

text \<open>
  C2. Let the library answer a symbol lookup with status \<open>symres\<close> and offset \<open>modoffs\<close>.
  When the name is resolved (success, or success without line information, which the
  front end treats alike) the line \<open>+0x<modoffs>\<close> in hexadecimal is printed; on any
  other status the line is \<open>??\<close>, or in verbose mode, in its place, the line
  \<open>drsym error <status> looking up "<symbol>" in "<module>"\<close> with the numeric status. In
  verbose mode the debug-kind line of the module comes first.
\<close>

theorem lookup_symbol_output:
  assumes "drsym_lookup_symbol E dllpath symname = (symres, modoffs)"
  shows "printed (lookup_symbol E opts dllpath symname) =
     printed (if verbose opts then get_and_print_debug_kind E dllpath else []) @
     [if symres = DRSYM_SUCCESS E \<or> symres = DRSYM_ERROR_LINE_NOT_AVAILABLE E
      then ''+0x'' @ show_hex (unat modoffs) @ ''\<newline>''
      else if verbose opts
      then ''drsym error '' @ show_int symres @ '' looking up '' @ [CHR 0x22] @ symname @
           [CHR 0x22] @ '' in '' @ [CHR 0x22] @ dllpath @ [CHR 0x22] @ ''\<newline>''
      else ''??\<newline>'']"
  using assms by (simp add: lookup_symbol_def printed_append)

theorem lookup_symbol_output_witness:
  "printed (lookup_symbol sample_env init_options ''a.dll'' ''main'') = [''+0x10\<newline>''] \<and>
   printed (lookup_symbol sample_env init_options ''a.dll'' ''nosuch'') = [''??\<newline>''] \<and>
   printed (lookup_symbol sample_env (init_options\<lparr>verbose := True\<rparr>) ''a.dll'' ''nosuch'') =
     [''<debug info: type=PDB, has symbols, has line numbers>\<newline>'',
      ''drsym error 5 looking up '' @ [CHR 0x22] @ ''nosuch'' @ [CHR 0x22] @ '' in '' @
      [CHR 0x22] @ ''a.dll'' @ [CHR 0x22] @ ''\<newline>'']"
proof -
  have e1: "drsym_lookup_symbol sample_env ''a.dll'' ''main'' = (0, 0x10)"
    and e2: "drsym_lookup_symbol sample_env ''a.dll'' ''nosuch'' = (5, 0)"
    and k: "drsym_get_module_debug_kind sample_env ''a.dll'' =
            (0, {DRSYM_SYMBOLS, DRSYM_LINE_NUMS, DRSYM_PDB})"
    by (simp_all add: sample_env_def)
  have h: "show_hex 16 = ''10''" "show_int 5 = ''5''"
    by code_simp+
  show ?thesis
    using lookup_symbol_output [OF e1, of init_options]
      lookup_symbol_output [OF e2, of init_options]
      lookup_symbol_output [OF e2, of "init_options\<lparr>verbose := True\<rparr>"]
    by (simp add: sample_env_codes h k init_options_def get_and_print_debug_kind_def
        print_debug_kind_def)
qed

subsection \<open>Symbol enumeration\<close>






subsection \<open>The argument loop\<close>

lemma stricmp_literals:
  "stricmp a ''-e'' \<longleftrightarrow> map tolower a = ''-e''"
  "stricmp a ''-f'' \<longleftrightarrow> map tolower a = ''-f''"
  "stricmp a ''-v'' \<longleftrightarrow> map tolower a = ''-v''"
  "stricmp a ''-a'' \<longleftrightarrow> map tolower a = ''-a''"
  "stricmp a ''-s'' \<longleftrightarrow> map tolower a = ''-s''"
  "stricmp a ''-q'' \<longleftrightarrow> map tolower a = ''-q''"
  "stricmp a ''--lines'' \<longleftrightarrow> map tolower a = ''--lines''"
  "stricmp a ''--enum'' \<longleftrightarrow> map tolower a = ''--enum''"
  "stricmp a ''--list'' \<longleftrightarrow> map tolower a = ''--list''"
  "stricmp a ''--search'' \<longleftrightarrow> map tolower a = ''--search''"
  "stricmp a ''--searchall'' \<longleftrightarrow> map tolower a = ''--searchall''"
  by (simp_all add: stricmp_def tolower_def)

lemma parse_args_step:
  "parse_args E argv0 opts (a # args) =
     (if stricmp a ''-e'' then
        (case args of
           [] \<Rightarrow> Inl (PRINT_USAGE E argv0, 1)
         | p # args' \<Rightarrow>
             (case check_dll E p of
                None \<Rightarrow> Inl ([Printf (''ERROR: invalid path '' @ p @ ''\<newline>'')], 1)
              | Some d \<Rightarrow> parse_args E argv0 (opts\<lparr>dll := Some d\<rparr>) args'))
      else if stricmp a ''-a'' \<or> stricmp a ''-s'' then
        (if args = [] then Inl (PRINT_USAGE E argv0, 1)
         else Inr (if stricmp a ''-a'' then opts\<lparr>addr2sym := True\<rparr>
                   else opts\<lparr>sym2addr := True\<rparr>, args))
      else (case flag_update a of
              Some f \<Rightarrow> parse_args E argv0 (f opts) args
            | None \<Rightarrow> Inl (PRINT_USAGE E argv0, 1)))"
  unfolding parse_args.simps flag_update_def stricmp_literals
  by (cases "map tolower a = ''-e''"; cases "map tolower a = ''-f''";
      cases "map tolower a = ''-v''"; cases "map tolower a = ''-a''";
      cases "map tolower a = ''-s''") simp_all


declare parse_args.simps(2) [simp del]

lemma parse_args_cases [case_names Nil Dll Flag Stop]:
  assumes "\<And>opts. P opts []"
    and "\<And>opts a p args d.
           stricmp a ''-e'' \<Longrightarrow> check_dll E p = Some d \<Longrightarrow> P (opts\<lparr>dll := Some d\<rparr>) args \<Longrightarrow>
           P opts (a # p # args)"
    and "\<And>opts a f args.
           \<not> stricmp a ''-e'' \<Longrightarrow> \<not> stricmp a ''-a'' \<Longrightarrow> \<not> stricmp a ''-s'' \<Longrightarrow>
           flag_update a = Some f \<Longrightarrow> P (f opts) args \<Longrightarrow> P opts (a # args)"
    and "\<And>opts a args.
           (stricmp a ''-e'' \<and> (args = [] \<or> check_dll E (hd args) = None)) \<or>
           (\<not> stricmp a ''-e'' \<and> (stricmp a ''-a'' \<or> stricmp a ''-s'')) \<or>
           (\<not> stricmp a ''-e'' \<and> \<not> stricmp a ''-a'' \<and> \<not> stricmp a ''-s'' \<and>
            flag_update a = None) \<Longrightarrow>
           P opts (a # args)"
  shows "P opts args"
proof (induction "length args" arbitrary: opts args rule: less_induct)
  case less
  show ?case
  proof (cases args)
    case Nil
    then show ?thesis by (simp add: assms(1))
  next
    case (Cons a rest)
    show ?thesis
    proof (cases "stricmp a ''-e''")
      case e: True
      show ?thesis
      proof (cases rest)
        case Nil
        with e Cons show ?thesis by (simp add: assms(4))
      next
        case rest: (Cons p args')
        show ?thesis
        proof (cases "check_dll E p")
          case None
          with e Cons rest show ?thesis by (simp add: assms(4))
        next
          case (Some d)
          have "P (opts\<lparr>dll := Some d\<rparr>) args'"
            using less [of args'] Cons rest by simp
          with e Some Cons rest show ?thesis by (simp add: assms(2))
        qed
      qed
    next
      case ne: False
      show ?thesis
      proof (cases "stricmp a ''-a'' \<or> stricmp a ''-s''")
        case True
        with ne Cons show ?thesis by (simp add: assms(4))
      next
        case nas: False
        show ?thesis
        proof (cases "flag_update a")
          case None
          with ne nas Cons show ?thesis by (simp add: assms(4))
        next
          case (Some f)
          have "P (f opts) rest"
            using less [of rest] Cons by simp
          with ne nas Some Cons show ?thesis by (simp add: assms(3))
        qed
      qed
    qed
  qed
qed


lemma parse_args_stop:
  assumes "(stricmp a ''-e'' \<and> (args = [] \<or> check_dll E (hd args) = None)) \<or>
           (\<not> stricmp a ''-e'' \<and> (stricmp a ''-a'' \<or> stricmp a ''-s'')) \<or>
           (\<not> stricmp a ''-e'' \<and> \<not> stricmp a ''-a'' \<and> \<not> stricmp a ''-s'' \<and>
            flag_update a = None)"
  shows "parse_args E argv0 opts (a # args) = Inl (PRINT_USAGE E argv0, 1) \<or>
         (stricmp a ''-e'' \<and> args \<noteq> [] \<and> check_dll E (hd args) = None \<and>
          parse_args E argv0 opts (a # args) =
            Inl ([Printf (''ERROR: invalid path '' @ hd args @ ''\<newline>'')], 1)) \<or>
         (\<not> stricmp a ''-e'' \<and> (stricmp a ''-a'' \<or> stricmp a ''-s'') \<and> args \<noteq> [] \<and>
          parse_args E argv0 opts (a # args) =
            Inr (if stricmp a ''-a'' then opts\<lparr>addr2sym := True\<rparr>
                 else opts\<lparr>sym2addr := True\<rparr>, args))"
proof (cases "stricmp a ''-e''")
  case True
  with assms have "args = [] \<or> check_dll E (hd args) = None" by simp
  with True show ?thesis
    by (cases args) (simp_all add: parse_args_step)
next
  case False
  with assms show ?thesis
    by (cases "stricmp a ''-a'' \<or> stricmp a ''-s''") (simp_all add: parse_args_step)
qed

lemma parse_args_append:
  "parse_args E argv0 opts pre = Inr (opts', []) \<Longrightarrow>
   parse_args E argv0 opts (pre @ tl_args) = parse_args E argv0 opts' tl_args"
proof (induction opts pre rule: parse_args_cases [where E = E])
  case (Nil opts)
  then show ?case by simp
next
  case (Dll opts a p args d)
  then show ?case by (simp add: parse_args_step)
next
  case (Flag opts a f args)
  then show ?case by (simp add: parse_args_step)
next
  case (Stop opts a args)
  from parse_args_stop [OF Stop(1), of argv0 opts] Stop(2) show ?case
    by auto
qed









lemma main_parsed:
  assumes "parse_args E argv0 init_options args = Inr (opts, rest)"
  shows "main E argv0 args inp =
     (if (\<not> addr2sym_multi opts \<and> dll opts = None) \<or>
         (addr2sym_multi opts \<and> dll opts \<noteq> None) \<or>
         (\<not> sym2addr opts \<and> \<not> addr2sym opts \<and> \<not> addr2sym_multi opts \<and>
          \<not> enumerate_all opts \<and> \<not> enum_lines opts)
      then (PRINT_USAGE E argv0, 1)
      else if drsym_init E \<noteq> DRSYM_SUCCESS E
      then ([Call_dr_standalone_init, Call_drsym_init,
             Printf ''ERROR: unable to initialize symbol library\<newline>''], 1)
      else
        ([Call_dr_standalone_init, Call_drsym_init] @
         (if \<not> addr2sym_multi opts then
            (case dll opts of
               None \<Rightarrow> []
             | Some d \<Rightarrow>
                 if enum_lines opts then enumerate_lines E opts d
                 else if enumerate_all opts
                   then enumerate_symbols E opts d None (search opts) (searchall opts)
                 else concat (map (query E opts d) rest))
          else batch_mode E opts inp False) @
         [Call_drsym_exit] @
         (if drsym_exit E \<noteq> DRSYM_SUCCESS E
          then [Printf ''WARNING: error cleaning up symbol library\<newline>'']
          else []),
         0))"
  using assms by (simp add: main_def)

lemma main_parse_exit:
  "parse_args E argv0 init_options args = Inl r \<Longrightarrow> main E argv0 args inp = r"
  by (simp add: main_def)

subsection \<open>A flag without its value\<close>

text \<open>
  C10. When the argument loop reaches \<open>-e\<close>, \<open>-a\<close> or \<open>-s\<close> (in any letter case) as the last
  argument, every argument before it having been accepted as an option, the run prints
  the usage text and returns 1, although that text shows the query list after \<open>-a\<close> and
  \<open>-s\<close> in optional brackets.
\<close>

theorem missing_value_usage:
  assumes "parse_args E argv0 init_options pre = Inr (opts, [])"
    and "stricmp a ''-e'' \<or> stricmp a ''-a'' \<or> stricmp a ''-s''"
  shows "main E argv0 (pre @ [a]) inp = (PRINT_USAGE E argv0, 1) \<and>
         sublist ''-a [<address relative to module base> ...]'' (USAGE_PRE argv0) \<and>
         sublist ''-s [<symbol1> <symbol2> ...]'' (USAGE_PRE argv0)"
proof -
  have "parse_args E argv0 init_options (pre @ [a]) = parse_args E argv0 opts [a]"
    using assms(1) by (rule parse_args_append)
  also have "\<dots> = Inl (PRINT_USAGE E argv0, 1)"
    using assms(2) by (auto simp: parse_args_step)
  finally have "main E argv0 (pre @ [a]) inp = (PRINT_USAGE E argv0, 1)"
    by (rule main_parse_exit)
  moreover have "USAGE_PRE argv0 =
      (''Usage:\<newline>Look up addresses for one module:\<newline>  '' @ argv0 @
       '' -e <module> [-f] [-v] '') @
      ''-a [<address relative to module base> ...]'' @
      (''\<newline>Look up addresses for multiple modules:\<newline>  '' @ argv0 @
       '' [-f] [-v] -q <pairs of [module_path;address relative to module base] on stdin>\<newline>'' @
       ''Look up exact symbols for one module:\<newline>  '' @ argv0 @
       '' -e <module> [-v] [--enum] -s [<symbol1> <symbol2> ...]\<newline>'')"
    by (simp add: USAGE_PRE_def)
  then have "sublist ''-a [<address relative to module base> ...]'' (USAGE_PRE argv0)"
    by (metis sublist_appendI)
  moreover have "USAGE_PRE argv0 =
      (''Usage:\<newline>Look up addresses for one module:\<newline>  '' @ argv0 @
       '' -e <module> [-f] [-v] -a [<address relative to module base> ...]\<newline>'' @
       ''Look up addresses for multiple modules:\<newline>  '' @ argv0 @
       '' [-f] [-v] -q <pairs of [module_path;address relative to module base] on stdin>\<newline>'' @
       ''Look up exact symbols for one module:\<newline>  '' @ argv0 @
       '' -e <module> [-v] [--enum] '') @
      ''-s [<symbol1> <symbol2> ...]'' @ ''\<newline>''"
    by (simp add: USAGE_PRE_def)
  then have "sublist ''-s [<symbol1> <symbol2> ...]'' (USAGE_PRE argv0)"
    by (metis sublist_appendI)
  ultimately show ?thesis by simp
qed

lemma sample_parse_e:
  "parse_args sample_env ''symquery'' init_options [''-e'', ''a.dll''] =
     Inr (init_options\<lparr>dll := Some ''a.dll''\<rparr>, [])"
  by (simp add: parse_args_step stricmp_def check_dll_def sample_env_def)

theorem missing_value_usage_witness:
  "main sample_env ''symquery'' [''-e'', ''a.dll'', ''-A''] [] =
     (PRINT_USAGE sample_env ''symquery'', 1) \<and>
   main sample_env ''symquery'' [''-e'', ''a.dll'', ''-s''] [] =
     (PRINT_USAGE sample_env ''symquery'', 1) \<and>
   main sample_env ''symquery'' [''-e'', ''a.dll'', ''-e''] [] =
     (PRINT_USAGE sample_env ''symquery'', 1)"
proof -
  have a: "stricmp ''-A'' ''-a''" "stricmp ''-s'' ''-s''" "stricmp ''-e'' ''-e''"
    by (simp_all add: stricmp_def tolower_def)
  show ?thesis
    using missing_value_usage [OF sample_parse_e, of "''-A''" "[]"]
      missing_value_usage [OF sample_parse_e, of "''-s''" "[]"]
      missing_value_usage [OF sample_parse_e, of "''-e''" "[]"]
    by (simp add: a)
qed


subsection \<open>Arguments after the mode flag\<close>

text \<open>
  C8. When the argument loop reaches \<open>-a\<close> or \<open>-s\<close> with at least one argument after it,
  the loop stops there: the options are those set by the arguments before the flag, plus
  the mode, whatever the later arguments look like, and the later arguments are handed on
  unchanged. In single-module query mode each of them, in order, is the subject of one
  query (an address lookup, an enumeration by name or a symbol lookup), also when it
  looks like an option.
\<close>

theorem rest_of_args_positional:
  assumes "parse_args E argv0 init_options pre = Inr (opts, [])"
    and "stricmp a ''-a'' \<or> stricmp a ''-s''"
    and "rest \<noteq> []"
    and "opts' = (if stricmp a ''-a'' then opts\<lparr>addr2sym := True\<rparr>
                  else opts\<lparr>sym2addr := True\<rparr>)"
  shows "parse_args E argv0 init_options (pre @ a # rest) = Inr (opts', rest) \<and>
     (dll opts = Some d \<and> \<not> addr2sym_multi opts \<and> \<not> enum_lines opts \<and>
      \<not> enumerate_all opts \<and> drsym_init E = DRSYM_SUCCESS E \<longrightarrow>
        main E argv0 (pre @ a # rest) inp =
          ([Call_dr_standalone_init, Call_drsym_init] @
           concat (map (query E opts' d) rest) @ [Call_drsym_exit] @
           (if drsym_exit E \<noteq> DRSYM_SUCCESS E
            then [Printf ''WARNING: error cleaning up symbol library\<newline>'']
            else []), 0))"
proof -
  have ne: "\<not> stricmp a ''-e''"
    using assms(2) by (auto simp: stricmp_literals)
  have "parse_args E argv0 init_options (pre @ a # rest) = parse_args E argv0 opts (a # rest)"
    using assms(1) by (rule parse_args_append)
  also have "\<dots> = Inr (opts', rest)"
    using assms(2,3,4) ne by (simp add: parse_args_step)
  finally have p: "parse_args E argv0 init_options (pre @ a # rest) = Inr (opts', rest)" .
  have f: "dll opts' = dll opts" "addr2sym_multi opts' = addr2sym_multi opts"
    "enum_lines opts' = enum_lines opts" "enumerate_all opts' = enumerate_all opts"
    "sym2addr opts' \<or> addr2sym opts'"
    using assms(4) by simp_all
  show ?thesis
    using p f by (auto simp: main_parsed [OF p])
qed

theorem rest_of_args_positional_witness:
  "printed (fst (main sample_env ''symquery'' [''-e'', ''a.dll'', ''-a'', ''-v'', ''15'', ''--list'']
      [])) =
     [''ERROR: unknown input -v\<newline>'', ''a.c:12+0x3\<newline>'',
      ''ERROR: unknown input --list\<newline>'',
      ''WARNING: error cleaning up symbol library\<newline>'']"
proof -
  have a: "stricmp ''-a'' ''-a'' \<or> stricmp ''-a'' ''-s''" and a': "stricmp ''-a'' ''-a''"
    by (simp_all add: stricmp_def)
  have o: "dll (init_options\<lparr>dll := Some ''a.dll''\<rparr>) = Some ''a.dll''"
    "\<not> addr2sym_multi (init_options\<lparr>dll := Some ''a.dll''\<rparr>)"
    "\<not> enum_lines (init_options\<lparr>dll := Some ''a.dll''\<rparr>)"
    "\<not> enumerate_all (init_options\<lparr>dll := Some ''a.dll''\<rparr>)"
    by (simp_all add: init_options_def)
  have q: "query sample_env (init_options\<lparr>dll := Some ''a.dll'', addr2sym := True\<rparr>) ''a.dll''
             ''-v'' = [Printf ''ERROR: unknown input -v\<newline>'']"
    "query sample_env (init_options\<lparr>dll := Some ''a.dll'', addr2sym := True\<rparr>) ''a.dll''
             ''15'' = [Call_drsym_lookup_address ''a.dll'' 0x15, Printf ''a.c:12+0x3\<newline>'']"
    "query sample_env (init_options\<lparr>dll := Some ''a.dll'', addr2sym := True\<rparr>) ''a.dll''
             ''--list'' = [Printf ''ERROR: unknown input --list\<newline>'']"
    by code_simp+
  show ?thesis
    using rest_of_args_positional [OF sample_parse_e a, of "[''-v'', ''15'', ''--list'']"
        "init_options\<lparr>dll := Some ''a.dll'', addr2sym := True\<rparr>" "''a.dll''" "[]"]
    by (simp add: a' o q sample_env_codes)
qed

subsection \<open>Exit status\<close>

text \<open>
  C9. A run whose arguments pass the loop and the validation after it, and in which the
  symbol library initialises, returns 0 whatever its lookups and enumerations yield. The
  library is torn down last, and a teardown status other than success adds only the
  warning line.
\<close>

theorem normal_exit_status:
  assumes "parse_args E argv0 init_options args = Inr (opts, rest)"
    and "\<not> ((\<not> addr2sym_multi opts \<and> dll opts = None) \<or>
            (addr2sym_multi opts \<and> dll opts \<noteq> None) \<or>
            (\<not> sym2addr opts \<and> \<not> addr2sym opts \<and> \<not> addr2sym_multi opts \<and>
             \<not> enumerate_all opts \<and> \<not> enum_lines opts))"
    and "drsym_init E = DRSYM_SUCCESS E"
  shows "snd (main E argv0 args inp) = 0 \<and>
     (\<exists>body. fst (main E argv0 args inp) =
        [Call_dr_standalone_init, Call_drsym_init] @ body @ [Call_drsym_exit] @
        (if drsym_exit E \<noteq> DRSYM_SUCCESS E
         then [Printf ''WARNING: error cleaning up symbol library\<newline>'']
         else []))"
  using assms(2,3) unfolding main_parsed [OF assms(1)] by auto

theorem normal_exit_status_witness:
  "main sample_env ''symquery'' [''-e'', ''a.dll'', ''-s'', ''nosuch''] [] =
     ([Call_dr_standalone_init, Call_drsym_init, Call_drsym_lookup_symbol ''a.dll'' ''nosuch'',
       Printf ''??\<newline>'', Call_drsym_exit,
       Printf ''WARNING: error cleaning up symbol library\<newline>''], 0) \<and>
   drsym_exit sample_env \<noteq> DRSYM_SUCCESS sample_env"
proof -
  have p: "parse_args sample_env ''symquery'' init_options [''-e'', ''a.dll'', ''-s'', ''nosuch''] =
      Inr (init_options\<lparr>dll := Some ''a.dll'', sym2addr := True\<rparr>, [''nosuch''])"
    by (simp add: parse_args_step stricmp_def tolower_def check_dll_def sample_env_def)
  have v: "\<not> ((\<not> addr2sym_multi (init_options\<lparr>dll := Some ''a.dll'', sym2addr := True\<rparr>) \<and>
             dll (init_options\<lparr>dll := Some ''a.dll'', sym2addr := True\<rparr>) = None) \<or>
            (addr2sym_multi (init_options\<lparr>dll := Some ''a.dll'', sym2addr := True\<rparr>) \<and>
             dll (init_options\<lparr>dll := Some ''a.dll'', sym2addr := True\<rparr>) \<noteq> None) \<or>
            (\<not> sym2addr (init_options\<lparr>dll := Some ''a.dll'', sym2addr := True\<rparr>) \<and>
             \<not> addr2sym (init_options\<lparr>dll := Some ''a.dll'', sym2addr := True\<rparr>) \<and>
             \<not> addr2sym_multi (init_options\<lparr>dll := Some ''a.dll'', sym2addr := True\<rparr>) \<and>
             \<not> enumerate_all (init_options\<lparr>dll := Some ''a.dll'', sym2addr := True\<rparr>) \<and>
             \<not> enum_lines (init_options\<lparr>dll := Some ''a.dll'', sym2addr := True\<rparr>)))"
    by (simp add: init_options_def)
  have i: "drsym_init sample_env = DRSYM_SUCCESS sample_env"
    by (simp add: sample_env_codes)
  have m: "main sample_env ''symquery'' [''-e'', ''a.dll'', ''-s'', ''nosuch''] [] =
     ([Call_dr_standalone_init, Call_drsym_init, Call_drsym_lookup_symbol ''a.dll'' ''nosuch'',
       Printf ''??\<newline>'', Call_drsym_exit,
       Printf ''WARNING: error cleaning up symbol library\<newline>''], 0)"
    by code_simp
  show ?thesis
    using normal_exit_status [OF p v i, of "[]"] by (simp add: m sample_env_codes)
qed

subsection \<open>Usage errors and invalid module paths\<close>



subsection \<open>Batch mode together with single-module flags\<close>




subsection \<open>Batch mode\<close>





lemma filter_map_Printf [simp]: "filter (\<lambda>e. \<not> is_Fgets e) (map Printf ss) = map Printf ss"
  by (induction ss) simp_all

lemma lookup_calls_map_Printf [simp]: "lookup_calls (map Printf ss @ es) = lookup_calls es"
  by (induction ss) simp_all

lemma track_map_Printf [simp]: "track p (map Printf ss @ es) = track p es"
  by (induction ss) simp_all






















end
